theory Spec2Isabelle
  imports Main
begin

section \<open>The Verba manager (goldenverba/verba\_manager.py)\<close>

text \<open>
  \<^verbatim>\<open>VerbaManager\<close> glues three strategy managers (reader, chunker, embedder) to a
  Weaviate client. The module is a thin orchestration layer: almost every line is a call
  into a collaborator (the strategy managers, the schema module, the Weaviate client,
  the process environment). The embedding therefore passes an explicit program state
  through every method and keeps, next to the manager object itself, the console output
  and the list of collaborator calls made so far, in the order the code makes them.
  What a collaborator answers is a parameter: the strategies live in the registries, the
  rest in a \<open>platform\<close> record.
\<close>

subsection \<open>Exceptions and outcomes\<close>

text \<open>
  A Python call either returns a value or raises; in both cases the effects made up to
  that point stay. \<open>Raised e s\<close> is an exception \<open>e\<close> leaving state \<open>s\<close>.
\<close>

datatype exn =
    UnboundLocalError
  | AttributeError
  | KeyError
  | TypeError
  | NoStrategySelected
  | External string

datatype ('a, 's) outcome = Raised exn 's | Returned 'a 's

fun final :: "('a, 's) outcome \<Rightarrow> 's" where
  "final (Raised e s) = s"
| "final (Returned a s) = s"

fun is_Raised :: "('a, 's) outcome \<Rightarrow> bool" where
  "is_Raised (Raised e s) = True"
| "is_Raised (Returned a s) = False"

text \<open>Sequencing: an exception skips the rest of the method body.\<close>

fun and_then :: "('a, 's) outcome \<Rightarrow> ('a \<Rightarrow> 's \<Rightarrow> ('b, 's) outcome) \<Rightarrow> ('b, 's) outcome" where
  "and_then (Raised e s) k = Raised e s"
| "and_then (Returned a s) k = k a s"

subsection \<open>JSON values returned by the store\<close>

datatype json =
    JNull
  | JBool bool
  | JNum int
  | JStr string
  | JArr "json list"
  | JObj "(string \<times> json) list"

text \<open>\<^verbatim>\<open>value[key]\<close> with a string key: only a dict holding the key answers.\<close>

fun getitem :: "json \<Rightarrow> string \<Rightarrow> exn + json" where
  "getitem (JObj kvs) k = (case map_of kvs k of None \<Rightarrow> Inl KeyError | Some v \<Rightarrow> Inr v)"
| "getitem v k = Inl TypeError"

text \<open>\<^verbatim>\<open>r["data"]["Get"][class_name]\<close>, the path both query methods read.\<close>

definition get_data :: "json \<Rightarrow> string \<Rightarrow> exn + json" where
  "get_data r class_name =
     (case getitem r ''data'' of
        Inl e \<Rightarrow> Inl e
      | Inr d \<Rightarrow>
          (case getitem d ''Get'' of
             Inl e \<Rightarrow> Inl e
           | Inr g \<Rightarrow> getitem g class_name))"

text \<open>\<^verbatim>\<open>len(value)\<close>.\<close>

fun py_len :: "json \<Rightarrow> exn + int" where
  "py_len (JArr xs) = Inr (int (length xs))"
| "py_len (JObj kvs) = Inr (int (length kvs))"
| "py_len (JStr s) = Inr (int (length s))"
| "py_len v = Inl TypeError"

subsection \<open>The Weaviate client and its requests\<close>

text \<open>
  The keyword arguments of \<^verbatim>\<open>weaviate.Client(...)\<close>. A header value is optional because
  the embedded branch passes the attribute \<^verbatim>\<open>openai.api_key\<close>, which is \<^verbatim>\<open>None\<close> as long
  as nobody set it.
\<close>

datatype AuthApiKey = AuthApiKey string

datatype EmbeddedOptions = EmbeddedOptions string string

record client_args =
  url :: "string option"
  additional_headers :: "(string \<times> string option) list"
  auth_client_secret :: "AuthApiKey option"
  embedded_options :: "EmbeddedOptions option"

datatype client = Client client_args

text \<open>
  The query that \<^verbatim>\<open>client.query.get(cls, props).with_additional(..).with_limit(..)\<close>
  builds before \<^verbatim>\<open>do()\<close> sends it.
\<close>

record query =
  class_name :: string
  properties :: "string list option"
  additional :: "string list"
  limit :: int

subsection \<open>Collaborator calls and program state\<close>

datatype 'd call =
    Call_Client client_args
  | Call_init_schemas "client option" string bool bool
  | Call_load "string list" "string list" "string list" "string list" string
  | Call_chunk "'d list" int int
  | Call_embed "'d list" "client option"
  | Call_query_do client query
  | Call_get_by_id client string string
  | Call_schema_get client
  | Call_schema_delete_all client

datatype msg = Info string | Good string | Fail string | Print string

text \<open>
  The three strategy interfaces. A strategy works on the outside world \<open>'w\<close> (files,
  the embedding service, the store). \<open>embed_documents\<close> (the interface's
  \<^verbatim>\<open>embed\<close>) also yields the list it was given as the call leaves it: Python
  passes the list by reference and the embedder attaches the vectors in place.
\<close>

record ('d, 'w) Reader =
  load :: "string list \<Rightarrow> string list \<Rightarrow> string list \<Rightarrow> string list \<Rightarrow> string
           \<Rightarrow> 'w \<Rightarrow> ('d list, 'w) outcome"

record ('d, 'w) Chunker =
  chunk :: "'d list \<Rightarrow> int \<Rightarrow> int \<Rightarrow> 'w \<Rightarrow> ('d list, 'w) outcome"

record ('d, 'w) Embedder =
  vectorizer :: string
  embed_documents :: "'d list \<Rightarrow> client option \<Rightarrow> 'w \<Rightarrow> (bool \<times> 'd list, 'w) outcome"

record ('d, 'w) ReaderManager =
  readers :: "string \<rightharpoonup> ('d, 'w) Reader"
  selected_reader :: "('d, 'w) Reader option"

record ('d, 'w) ChunkerManager =
  chunkers :: "string \<rightharpoonup> ('d, 'w) Chunker"
  selected_chunker :: "('d, 'w) Chunker option"

record ('d, 'w) EmbeddingManager =
  embedders :: "string \<rightharpoonup> ('d, 'w) Embedder"
  selected_embedder :: "('d, 'w) Embedder option"

text \<open>The fields \<^verbatim>\<open>__init__\<close> gives a \<^verbatim>\<open>VerbaManager\<close>.\<close>

record ('d, 'w) VerbaManager =
  reader_manager :: "('d, 'w) ReaderManager"
  chunker_manager :: "('d, 'w) ChunkerManager"
  embedder_manager :: "('d, 'w) EmbeddingManager"
  environment_variables :: "string \<rightharpoonup> bool"
  installed_libraries :: "string \<rightharpoonup> bool"
  weaviate_type :: string
  client :: "client option"

record ('d, 'w) state =
  self :: "('d, 'w) VerbaManager"
  console :: "msg list"
  calls :: "'d call list"
  ssl_unverified :: bool
  world :: 'w

text \<open>
  What the module finds around it: the process environment, which optional libraries
  import (for \<^verbatim>\<open>openai\<close> together with the initial value of its \<^verbatim>\<open>api_key\<close>
  attribute), the Weaviate client library, and the schema module's entry point and its
  two identifier collections in iteration order.
\<close>

record 'w platform =
  environ :: "string \<rightharpoonup> string"
  openai_module :: "string option option"
  spacy_importable :: bool
  ssl_has_unverified_context :: bool
  weaviate_Client :: "client_args \<Rightarrow> 'w \<Rightarrow> (client, 'w) outcome"
  init_schemas :: "client option \<Rightarrow> string \<Rightarrow> bool \<Rightarrow> bool \<Rightarrow> 'w \<Rightarrow> (bool, 'w) outcome"
  VECTORIZERS :: "string list"
  EMBEDDINGS :: "string list"
  query_do :: "client \<Rightarrow> query \<Rightarrow> 'w \<Rightarrow> (json, 'w) outcome"
  get_by_id :: "client \<Rightarrow> string \<Rightarrow> string \<Rightarrow> 'w \<Rightarrow> (json, 'w) outcome"
  schema_get :: "client \<Rightarrow> 'w \<Rightarrow> (json, 'w) outcome"
  schema_delete_all :: "client \<Rightarrow> 'w \<Rightarrow> (unit, 'w) outcome"

text \<open>
  A collaborator call: the call is noted, then its answer and its effect on the outside
  world are taken over, whether it returns or raises.
\<close>

definition invoke :: "'d call \<Rightarrow> ('w \<Rightarrow> ('a, 'w) outcome) \<Rightarrow> ('d, 'w) state \<Rightarrow> ('a, ('d, 'w) state) outcome" where
  "invoke c f s =
     (case f (world s) of
        Raised e w \<Rightarrow> Raised e (s\<lparr>calls := calls s @ [c], world := w\<rparr>)
      | Returned a w \<Rightarrow> Returned a (s\<lparr>calls := calls s @ [c], world := w\<rparr>))"

definition say :: "msg \<Rightarrow> ('d, 'w) state \<Rightarrow> ('d, 'w) state" where
  "say m s = s\<lparr>console := console s @ [m]\<rparr>"

text \<open>\<^verbatim>\<open>os.environ.get(name, "")\<close>.\<close>

definition environ_get :: "'w platform \<Rightarrow> string \<Rightarrow> string" where
  "environ_get P name = (case environ P name of None \<Rightarrow> [] | Some v \<Rightarrow> v)"

text \<open>\<^verbatim>\<open>self.environment_variables[k] = b\<close> and \<^verbatim>\<open>self.weaviate_type = t\<close>.\<close>

definition set_environment_variable :: "string \<Rightarrow> bool \<Rightarrow> ('d, 'w) state \<Rightarrow> ('d, 'w) state" where
  "set_environment_variable k b s =
     s\<lparr>self := (self s)\<lparr>environment_variables := (environment_variables (self s))(k \<mapsto> b)\<rparr>\<rparr>"

definition set_weaviate_type :: "string \<Rightarrow> ('d, 'w) state \<Rightarrow> ('d, 'w) state" where
  "set_weaviate_type t s = s\<lparr>self := (self s)\<lparr>weaviate_type := t\<rparr>\<rparr>"

subsection \<open>setup\_client\<close>

text \<open>
  Lines 96-109, the guarded block around \<^verbatim>\<open>import openai\<close>. Its result is the header
  dictionary collected so far and the local name \<^verbatim>\<open>openai\<close>: \<open>None\<close> when the import
  raised and the name stayed unbound, otherwise the module's \<^verbatim>\<open>api_key\<close> attribute
  after the block. The \<^verbatim>\<open>except\<close> branch swallows the exception.
\<close>

definition check_openai ::
  "'w platform \<Rightarrow> ('d, 'w) state \<Rightarrow> ((string \<times> string option) list \<times> string option option) \<times> ('d, 'w) state" where
  "check_openai P s =
     (case openai_module P of
        None \<Rightarrow> (([], None), set_environment_variable ''OPENAI_API_KEY'' False s)
      | Some attr \<Rightarrow>
          (let openai_key = environ_get P ''OPENAI_API_KEY'' in
           if openai_key \<noteq> []
           then (([(''X-OpenAI-Api-Key'', Some openai_key)], Some (Some openai_key)),
                 say (Info ''OpenAI API key detected'')
                   (set_environment_variable ''OPENAI_API_KEY'' True s))
           else (([], Some attr), set_environment_variable ''OPENAI_API_KEY'' False s)))"

text \<open>Lines 125-130: the default HTTPS context is replaced when \<^verbatim>\<open>ssl\<close> offers the unverified one.\<close>

definition patch_ssl :: "'w platform \<Rightarrow> ('d, 'w) state \<Rightarrow> ('d, 'w) state" where
  "patch_ssl P s = (if ssl_has_unverified_context P then s\<lparr>ssl_unverified := True\<rparr> else s)"

text \<open>Lines 142-147: the report on the client and the return.\<close>

definition report_client :: "client option \<Rightarrow> ('d, 'w) state \<Rightarrow> (client option, ('d, 'w) state) outcome" where
  "report_client c s =
     (if c \<noteq> None
      then Returned c (say (Good ''Connected to Weaviate'') s)
      else Returned c (say (Fail ''Connection to Weaviate failed'') s))"

definition setup_client :: "'w platform \<Rightarrow> ('d, 'w) state \<Rightarrow> (client option, ('d, 'w) state) outcome" where
  "setup_client P s0 =
     (let s1 = say (Info ''Setting up client'') s0;
          ((additional_header, openai), s2) = check_openai P s1;
          weaviate_url = environ_get P ''VERBA_URL''
      in
      if weaviate_url \<noteq> []
      then
        (let weaviate_key = environ_get P ''VERBA_API_KEY'';
             s3 = set_weaviate_type ''Weaviate Cluster''
                    (set_environment_variable ''VERBA_URL'' True s2);
             args = \<lparr>url = Some weaviate_url,
                     additional_headers = additional_header,
                     auth_client_secret = Some (AuthApiKey weaviate_key),
                     embedded_options = None\<rparr>
         in and_then (invoke (Call_Client args) (weaviate_Client P args) s3)
              (\<lambda>c. report_client (Some c)))
      else
        (let s3 = set_weaviate_type ''Weaviate Embedded''
                    (say (Info ''Using Weaviate Embedded'') (patch_ssl P s2))
         in case openai of
              None \<Rightarrow> Raised UnboundLocalError s3
            | Some api_key \<Rightarrow>
                (let args = \<lparr>url = None,
                             additional_headers = [(''X-OpenAI-Api-Key'', api_key)],
                             auth_client_secret = None,
                             embedded_options =
                               Some (EmbeddedOptions ''./.verba/local/share/''
                                       ''./.verba/cache/weaviate-embedded'')\<rparr>
                 in and_then (invoke (Call_Client args) (weaviate_Client P args) s3)
                      (\<lambda>c. report_client (Some c)))))"

subsection \<open>The flag dictionaries\<close>

definition verify_installed_libraries :: "'w platform \<Rightarrow> ('d, 'w) state \<Rightarrow> ('d, 'w) state" where
  "verify_installed_libraries P s =
     s\<lparr>self := (self s)\<lparr>installed_libraries :=
                    (installed_libraries (self s))(''spacy'' \<mapsto> spacy_importable P)\<rparr>\<rparr>"

definition verify_variables :: "'w platform \<Rightarrow> ('d, 'w) state \<Rightarrow> ('d, 'w) state" where
  "verify_variables P s =
     (if environ_get P ''OPENAI_API_KEY'' \<noteq> []
      then set_environment_variable ''OPENAI_API_KEY'' True s
      else set_environment_variable ''OPENAI_API_KEY'' False s)"

subsection \<open>Construction\<close>

text \<open>
  One of the two loops of \<^verbatim>\<open>__init__\<close> (lines 38-42): \<^verbatim>\<open>init_schemas(self.client, v,
  False, True)\<close> for each identifier in turn. The value a call returns is dropped; an
  exception leaves the loop.
\<close>

fun init_schemas_loop :: "'w platform \<Rightarrow> string list \<Rightarrow> ('d, 'w) state \<Rightarrow> (unit, ('d, 'w) state) outcome" where
  "init_schemas_loop P [] s = Returned () s"
| "init_schemas_loop P (v # vs) s =
     (case invoke (Call_init_schemas (client (self s)) v False True)
             (init_schemas P (client (self s)) v False True) s of
        Raised e s' \<Rightarrow> Raised e s'
      | Returned ok s' \<Rightarrow> init_schemas_loop P vs s')"

text \<open>
  \<^verbatim>\<open>__init__\<close>. The three manager objects come from constructors of other modules and
  are parameters. The state passed in supplies console, calls and world; its \<open>self\<close>
  is the fresh object and is overwritten.
\<close>

definition VerbaManager_init ::
  "'w platform \<Rightarrow> ('d, 'w) ReaderManager \<Rightarrow> ('d, 'w) ChunkerManager \<Rightarrow> ('d, 'w) EmbeddingManager
   \<Rightarrow> ('d, 'w) state \<Rightarrow> (unit, ('d, 'w) state) outcome" where
  "VerbaManager_init P rm km em s =
     (let s0 = s\<lparr>self := \<lparr>reader_manager = rm, chunker_manager = km, embedder_manager = em,
                           environment_variables = Map.empty, installed_libraries = Map.empty,
                           weaviate_type = [], client = None\<rparr>\<rparr>
      in and_then (setup_client P s0)
           (\<lambda>c s1.
              let s2 = s1\<lparr>self := (self s1)\<lparr>client := c\<rparr>\<rparr>;
                  s3 = verify_variables P (verify_installed_libraries P s2)
              in and_then (init_schemas_loop P (VECTORIZERS P) s3)
                   (\<lambda>u. init_schemas_loop P (EMBEDDINGS P))))"

subsection \<open>The strategy managers\<close>

text \<open>
  Modelled from the spec: the classes \<^verbatim>\<open>ReaderManager\<close>, \<^verbatim>\<open>ChunkerManager\<close> and
  \<^verbatim>\<open>EmbeddingManager\<close> (goldenverba/ingestion/*/manager.py) are not part of the
  sources at hand. Section 4.1 of the specification: a registry maps names to
  implementations and has one selected entry; \<^verbatim>\<open>select(name)\<close> is true iff the name
  exists, then that implementation becomes the active one, otherwise the selection
  stays; a stage is run by the active implementation and fails with
  \<^verbatim>\<open>NoStrategySelected\<close> when there is none.
\<close>

definition set_reader :: "('d, 'w) ReaderManager \<Rightarrow> string \<Rightarrow> bool \<times> ('d, 'w) ReaderManager" where
  "set_reader rm reader =
     (case readers rm reader of
        None \<Rightarrow> (False, rm)
      | Some r \<Rightarrow> (True, rm\<lparr>selected_reader := Some r\<rparr>))"

definition set_chunker :: "('d, 'w) ChunkerManager \<Rightarrow> string \<Rightarrow> bool \<times> ('d, 'w) ChunkerManager" where
  "set_chunker km chunker =
     (case chunkers km chunker of
        None \<Rightarrow> (False, km)
      | Some k \<Rightarrow> (True, km\<lparr>selected_chunker := Some k\<rparr>))"

definition set_embedder :: "('d, 'w) EmbeddingManager \<Rightarrow> string \<Rightarrow> bool \<times> ('d, 'w) EmbeddingManager" where
  "set_embedder em embedder =
     (case embedders em embedder of
        None \<Rightarrow> (False, em)
      | Some e \<Rightarrow> (True, em\<lparr>selected_embedder := Some e\<rparr>))"

definition ReaderManager_load ::
  "('d, 'w) ReaderManager \<Rightarrow> string list \<Rightarrow> string list \<Rightarrow> string list \<Rightarrow> string list \<Rightarrow> string
   \<Rightarrow> 'w \<Rightarrow> ('d list, 'w) outcome" where
  "ReaderManager_load rm bytes contents paths fileNames document_type w =
     (case selected_reader rm of
        None \<Rightarrow> Raised NoStrategySelected w
      | Some r \<Rightarrow> load r bytes contents paths fileNames document_type w)"

definition ChunkerManager_chunk ::
  "('d, 'w) ChunkerManager \<Rightarrow> 'd list \<Rightarrow> int \<Rightarrow> int \<Rightarrow> 'w \<Rightarrow> ('d list, 'w) outcome" where
  "ChunkerManager_chunk km documents units overlap w =
     (case selected_chunker km of
        None \<Rightarrow> Raised NoStrategySelected w
      | Some k \<Rightarrow> chunk k documents units overlap w)"

definition EmbeddingManager_embed ::
  "('d, 'w) EmbeddingManager \<Rightarrow> 'd list \<Rightarrow> client option \<Rightarrow> 'w \<Rightarrow> (bool \<times> 'd list, 'w) outcome" where
  "EmbeddingManager_embed em documents c w =
     (case selected_embedder em of
        None \<Rightarrow> Raised NoStrategySelected w
      | Some e \<Rightarrow> embed_documents e documents c w)"

text \<open>
  Modelled from the spec: \<^verbatim>\<open>strip_non_letters\<close> of the schema module
  (goldenverba/ingestion/schema/schema\_generation.py) is not part of the sources at
  hand. Sections 3 and 6 of the specification: sanitization retains only the ASCII
  letters of the identifier, preserving case and order.
\<close>

definition is_ascii_letter :: "char \<Rightarrow> bool" where
  "is_ascii_letter c =
     (let n = (of_char c :: nat) in (65 \<le> n \<and> n \<le> 90) \<or> (97 \<le> n \<and> n \<le> 122))"

fun strip_non_letters :: "string \<Rightarrow> string" where
  "strip_non_letters [] = []"
| "strip_non_letters (c # cs) =
     (if is_ascii_letter c then c # strip_non_letters cs else strip_non_letters cs)"

subsection \<open>Selecting strategies (lines 68-84)\<close>

definition reader_set_reader :: "string \<Rightarrow> ('d, 'w) state \<Rightarrow> (bool, ('d, 'w) state) outcome" where
  "reader_set_reader reader s =
     (let (ok, rm) = set_reader (reader_manager (self s)) reader
      in Returned ok (s\<lparr>self := (self s)\<lparr>reader_manager := rm\<rparr>\<rparr>))"

definition chunker_set_chunker :: "string \<Rightarrow> ('d, 'w) state \<Rightarrow> (bool, ('d, 'w) state) outcome" where
  "chunker_set_chunker chunker s =
     (let (ok, km) = set_chunker (chunker_manager (self s)) chunker
      in Returned ok (s\<lparr>self := (self s)\<lparr>chunker_manager := km\<rparr>\<rparr>))"

definition embedder_set_embedder :: "string \<Rightarrow> ('d, 'w) state \<Rightarrow> (bool, ('d, 'w) state) outcome" where
  "embedder_set_embedder embedder s =
     (let (ok, em) = set_embedder (embedder_manager (self s)) embedder
      in Returned ok (s\<lparr>self := (self s)\<lparr>embedder_manager := em\<rparr>\<rparr>))"

definition reader_get_readers :: "('d, 'w) state \<Rightarrow> string \<rightharpoonup> ('d, 'w) Reader" where
  "reader_get_readers s = readers (reader_manager (self s))"

definition chunker_get_chunker :: "('d, 'w) state \<Rightarrow> string \<rightharpoonup> ('d, 'w) Chunker" where
  "chunker_get_chunker s = chunkers (chunker_manager (self s))"

definition embedder_get_embedder :: "('d, 'w) state \<Rightarrow> string \<rightharpoonup> ('d, 'w) Embedder" where
  "embedder_get_embedder s = embedders (embedder_manager (self s))"

subsection \<open>import\_data (lines 44-66)\<close>

text \<open>
  The result is \<open>Some\<close> of the document list, or \<open>None\<close> for Python's \<^verbatim>\<open>None\<close>. The
  list returned is the object the chunker returned, as the embedder left it.
\<close>

definition import_data ::
  "string list \<Rightarrow> string list \<Rightarrow> string list \<Rightarrow> string list \<Rightarrow> string \<Rightarrow> int \<Rightarrow> int
   \<Rightarrow> ('d, 'w) state \<Rightarrow> ('d list option, ('d, 'w) state) outcome" where
  "import_data bytes contents paths fileNames document_type units overlap s =
     and_then
       (invoke (Call_load bytes contents paths fileNames document_type)
          (ReaderManager_load (reader_manager (self s)) bytes contents paths fileNames document_type) s)
       (\<lambda>loaded_documents s1.
          and_then
            (invoke (Call_chunk loaded_documents units overlap)
               (ChunkerManager_chunk (chunker_manager (self s1)) loaded_documents units overlap) s1)
            (\<lambda>modified_documents s2.
               and_then
                 (invoke (Call_embed modified_documents (client (self s2)))
                    (EmbeddingManager_embed (embedder_manager (self s2)) modified_documents
                       (client (self s2))) s2)
                 (\<lambda>(ok, embedded_documents) s3.
                    if ok
                    then Returned (Some embedded_documents) (say (Good ''Embedding successful'') s3)
                    else Returned None (say (Fail ''Embedding failed'') s3))))"

subsection \<open>Reading from the store (lines 173-232)\<close>

text \<open>\<^verbatim>\<open>self.client.<attribute>\<close>: with \<^verbatim>\<open>None\<close> for a client the attribute access raises.\<close>

definition the_client :: "('d, 'w) state \<Rightarrow> exn + client" where
  "the_client s = (case client (self s) of None \<Rightarrow> Inl AttributeError | Some c \<Rightarrow> Inr c)"

text \<open>\<^verbatim>\<open>for x in value\<close>: a list gives its items, a dict its keys, a string its characters.\<close>

fun py_iter :: "json \<Rightarrow> exn + json list" where
  "py_iter (JArr xs) = Inr xs"
| "py_iter (JObj kvs) = Inr (map (\<lambda>kv. JStr (fst kv)) kvs)"
| "py_iter (JStr s) = Inr (map (\<lambda>c. JStr [c]) s)"
| "py_iter v = Inl TypeError"

text \<open>
  The body of the loop of \<^verbatim>\<open>get_schemas\<close> over the classes of the schema. The query
  builder takes a class name that is a string and refuses anything else.
\<close>

fun count_objects ::
  "'w platform \<Rightarrow> json list \<Rightarrow> (string \<rightharpoonup> int) \<Rightarrow> ('d, 'w) state
   \<Rightarrow> (string \<rightharpoonup> int, ('d, 'w) state) outcome" where
  "count_objects P [] schemas s = Returned schemas s"
| "count_objects P (cls # rest) schemas s =
     (case the_client s of
        Inl e \<Rightarrow> Raised e s
      | Inr c \<Rightarrow>
          (case getitem cls ''class'' of
             Inl e \<Rightarrow> Raised e s
           | Inr (JStr name) \<Rightarrow>
               (let q = \<lparr>class_name = name, properties = None, additional = [''id''],
                         limit = 100000\<rparr>
                in case invoke (Call_query_do c q) (query_do P c q) s of
                     Raised e s' \<Rightarrow> Raised e s'
                   | Returned results s' \<Rightarrow>
                       (case get_data results name of
                          Inl e \<Rightarrow> Raised e s'
                        | Inr objects \<Rightarrow>
                            (case py_len objects of
                               Inl e \<Rightarrow> Raised e s'
                             | Inr n \<Rightarrow> count_objects P rest (schemas(name \<mapsto> n)) s')))
           | Inr other \<Rightarrow> Raised TypeError s))"

definition get_schemas :: "'w platform \<Rightarrow> ('d, 'w) state \<Rightarrow> (string \<rightharpoonup> int, ('d, 'w) state) outcome" where
  "get_schemas P s =
     (case the_client s of
        Inl e \<Rightarrow> Raised e s
      | Inr c \<Rightarrow>
          and_then (invoke (Call_schema_get c) (schema_get P c) s)
            (\<lambda>schema_info s1.
               case getitem schema_info ''classes'' of
                 Inl e \<Rightarrow> Raised e s1
               | Inr classes \<Rightarrow>
                   (case py_iter classes of
                      Inl e \<Rightarrow> Raised e s1
                    | Inr items \<Rightarrow> count_objects P items Map.empty s1)))"

text \<open>\<^verbatim>\<open>self.embedder_manager.selected_embedder.vectorizer\<close>.\<close>

definition selected_vectorizer :: "('d, 'w) state \<Rightarrow> exn + string" where
  "selected_vectorizer s =
     (case selected_embedder (embedder_manager (self s)) of
        None \<Rightarrow> Inl AttributeError
      | Some e \<Rightarrow> Inr (vectorizer e))"

definition retrieve_all_documents :: "'w platform \<Rightarrow> ('d, 'w) state \<Rightarrow> (json, ('d, 'w) state) outcome" where
  "retrieve_all_documents P s =
     (case selected_vectorizer s of
        Inl e \<Rightarrow> Raised e s
      | Inr v \<Rightarrow>
          (let class_name = ''Document_'' @ strip_non_letters v;
               s1 = say (Print class_name) s
           in case the_client s1 of
                Inl e \<Rightarrow> Raised e s1
              | Inr c \<Rightarrow>
                  (let q = \<lparr>class_name = class_name,
                            properties = Some [''doc_name'', ''doc_type'', ''doc_link''],
                            additional = [''id''],
                            limit = 10000\<rparr>
                   in and_then (invoke (Call_query_do c q) (query_do P c q) s1)
                        (\<lambda>query_results s2.
                           case get_data query_results class_name of
                             Inl e \<Rightarrow> Raised e s2
                           | Inr results \<Rightarrow> Returned results s2))))"

definition retrieve_document :: "'w platform \<Rightarrow> string \<Rightarrow> ('d, 'w) state \<Rightarrow> (json, ('d, 'w) state) outcome" where
  "retrieve_document P doc_id s =
     (case selected_vectorizer s of
        Inl e \<Rightarrow> Raised e s
      | Inr v \<Rightarrow>
          (let class_name = ''Document_'' @ strip_non_letters v
           in case the_client s of
                Inl e \<Rightarrow> Raised e s
              | Inr c \<Rightarrow>
                  invoke (Call_get_by_id c doc_id class_name) (get_by_id P c doc_id class_name) s))"

definition reset :: "'w platform \<Rightarrow> ('d, 'w) state \<Rightarrow> (unit, ('d, 'w) state) outcome" where
  "reset P s =
     (case the_client s of
        Inl e \<Rightarrow> Raised e s
      | Inr c \<Rightarrow> invoke (Call_schema_delete_all c) (schema_delete_all P c) s)"

subsection \<open>Observations used in the statements\<close>

text \<open>The schema-setup calls among the collaborator calls.\<close>

fun is_schema_call :: "'d call \<Rightarrow> bool" where
  "is_schema_call (Call_init_schemas c v force check) = True"
| "is_schema_call other = False"

text \<open>The records a query result holds: the items of a list, nothing otherwise.\<close>

fun records :: "json \<Rightarrow> json list" where
  "records (JArr xs) = xs"
| "records v = []"

text \<open>
  The store contract of section 6 of the specification (bounded query by class): the
  list a query answers for its class has at most \<open>limit\<close> items.
\<close>

definition honours_limit :: "'w platform \<Rightarrow> bool" where
  "honours_limit P =
     (\<forall>c q w r w' v. query_do P c q w = Returned r w' \<longrightarrow> get_data r (class_name q) = Inr v
        \<longrightarrow> int (length (records v)) \<le> limit q)"

subsection \<open>A small concrete installation\<close>

text \<open>
  Documents are their text, the outside world is the list of objects in the store.
  The reader takes the inline contents, the chunker keeps the documents, the embedder
  stores one object per document and reports success; a second embedder reports failure.
\<close>

definition text_reader :: "(string, json list) Reader" where
  "text_reader = \<lparr>load = (\<lambda>bytes contents paths fileNames document_type w. Returned contents w)\<rparr>"

definition whole_chunker :: "(string, json list) Chunker" where
  "whole_chunker = \<lparr>chunk = (\<lambda>documents units overlap w. Returned documents w)\<rparr>"

definition ada_embedder :: "(string, json list) Embedder" where
  "ada_embedder =
     \<lparr>vectorizer = ''text2vec-openai'',
      embed_documents = (\<lambda>documents c w. Returned (True, documents) (w @ map JStr documents))\<rparr>"

definition broken_embedder :: "(string, json list) Embedder" where
  "broken_embedder =
     \<lparr>vectorizer = ''MiniLM'',
      embed_documents = (\<lambda>documents c w. Returned (False, documents) w)\<rparr>"

definition demo_readers :: "(string, json list) ReaderManager" where
  "demo_readers = \<lparr>readers = [''SimpleReader'' \<mapsto> text_reader], selected_reader = Some text_reader\<rparr>"

definition demo_chunkers :: "(string, json list) ChunkerManager" where
  "demo_chunkers = \<lparr>chunkers = [''WordChunker'' \<mapsto> whole_chunker], selected_chunker = Some whole_chunker\<rparr>"

definition demo_embedders :: "(string, json list) EmbeddingManager" where
  "demo_embedders =
     \<lparr>embedders = [''ADAEmbedder'' \<mapsto> ada_embedder, ''MiniLMEmbedder'' \<mapsto> broken_embedder],
      selected_embedder = Some ada_embedder\<rparr>"

text \<open>
  A platform with no environment variables set: every connection succeeds, the store
  answers a query with the first \<open>limit\<close> objects (and refuses a negative limit), and schema setup reports \<open>ok\<close>.
\<close>

definition demo_platform :: "bool \<Rightarrow> string option option \<Rightarrow> json list platform" where
  "demo_platform ok openai =
     \<lparr>environ = Map.empty,
      openai_module = openai,
      spacy_importable = False,
      ssl_has_unverified_context = True,
      weaviate_Client = (\<lambda>a w. Returned (Client a) w),
      init_schemas = (\<lambda>c v force check w. Returned ok w),
      VECTORIZERS = [''text2vec-openai''],
      EMBEDDINGS = [''MiniLM''],
      query_do = (\<lambda>c q w.
         if limit q < 0 then Raised (External ''UnexpectedStatusCodeException'') w
         else Returned (JObj [(''data'', JObj [(''Get'',
                  JObj [(class_name q, JArr (take (nat (limit q)) w))])])]) w),
      get_by_id = (\<lambda>c doc_id cls w. Returned JNull w),
      schema_get = (\<lambda>c w. Returned (JObj [(''classes'', JArr [])]) w),
      schema_delete_all = (\<lambda>c w. Returned () [])\<rparr>"

text \<open>The same platform with a store that cannot be reached.\<close>

definition offline_platform :: "json list platform" where
  "offline_platform =
     (demo_platform True (Some None))\<lparr>weaviate_Client := (\<lambda>a w. Raised (External ''WeaviateStartUpError'') w)\<rparr>"

definition blank_manager :: "(string, json list) VerbaManager" where
  "blank_manager =
     \<lparr>reader_manager = demo_readers, chunker_manager = demo_chunkers,
      embedder_manager = demo_embedders, environment_variables = Map.empty,
      installed_libraries = Map.empty, weaviate_type = [], client = None\<rparr>"

definition fresh :: "(string, json list) state" where
  "fresh = \<lparr>self = blank_manager, console = [], calls = [], ssl_unverified = False, world = []\<rparr>"

definition embedded_client :: client where
  "embedded_client =
     Client \<lparr>url = None, additional_headers = [(''X-OpenAI-Api-Key'', None)],
             auth_client_secret = None,
             embedded_options =
               Some (EmbeddedOptions ''./.verba/local/share/'' ''./.verba/cache/weaviate-embedded'')\<rparr>"

text \<open>A manager as construction leaves it on the demo platform.\<close>

definition running :: "(string, json list) state" where
  "running =
     fresh\<lparr>self := blank_manager\<lparr>environment_variables := [''OPENAI_API_KEY'' \<mapsto> False],
                                   installed_libraries := [''spacy'' \<mapsto> False],
                                   weaviate_type := ''Weaviate Embedded'',
                                   client := Some embedded_client\<rparr>\<rparr>"

text \<open>The same manager with the embedder that reports failure selected.\<close>

definition failing :: "(string, json list) state" where
  "failing = running\<lparr>self := (self running)\<lparr>embedder_manager :=
                 (embedder_manager (self running))\<lparr>selected_embedder := Some broken_embedder\<rparr>\<rparr>\<rparr>"

text \<open>The state in which construction on the demo platform ends.\<close>

definition constructed :: "(string, json list) state" where
  "constructed =
     running\<lparr>console := [Info ''Setting up client'', Info ''Using Weaviate Embedded'',
                          Good ''Connected to Weaviate''],
             calls := [Call_Client
                         \<lparr>url = None, additional_headers = [(''X-OpenAI-Api-Key'', None)],
                          auth_client_secret = None,
                          embedded_options =
                            Some (EmbeddedOptions ''./.verba/local/share/''
                                    ''./.verba/cache/weaviate-embedded'')\<rparr>,
                       Call_init_schemas (Some embedded_client) ''text2vec-openai'' False True,
                       Call_init_schemas (Some embedded_client) ''MiniLM'' False True],
             ssl_unverified := True\<rparr>"

section \<open>Properties\<close>

subsection \<open>Basic facts\<close>

lemma self_invoke: "self (final (invoke c f s)) = self s"
  by (simp add: invoke_def split: outcome.splits)

lemma strip_non_letters_filter: "strip_non_letters v = filter is_ascii_letter v"
  by (induction v) simp_all

lemma check_openai_unbound:
  "openai_module P = None \<Longrightarrow>
   check_openai P s = (([], None), set_environment_variable ''OPENAI_API_KEY'' False s)"
  by (simp add: check_openai_def)

subsection \<open>The ingestion pipeline\<close>

text \<open>
  Claim C1. For every batch, \<^verbatim>\<open>import_data\<close> runs the stages in sequence: the active
  reader loads the inputs, the active chunker chunks what the reader returned, the
  active embedder embeds (and persists) what the chunker returned, each stage starting
  in the world the previous one left; when the embed stage reports success, the
  processed documents are returned. The calls made are exactly these three, in order.
\<close>

theorem import_data_success:
  assumes "selected_reader (reader_manager (self s)) = Some r"
    and "selected_chunker (chunker_manager (self s)) = Some k"
    and "selected_embedder (embedder_manager (self s)) = Some e"
    and "load r bytes contents paths fileNames document_type (world s) = Returned loaded w1"
    and "chunk k loaded units overlap w1 = Returned chunked w2"
    and "embed_documents e chunked (client (self s)) w2 = Returned (True, embedded) w3"
  shows "import_data bytes contents paths fileNames document_type units overlap s =
           Returned (Some embedded)
             (s\<lparr>console := console s @ [Good ''Embedding successful''],
                calls := calls s @ [Call_load bytes contents paths fileNames document_type,
                                    Call_chunk loaded units overlap,
                                    Call_embed chunked (client (self s))],
                world := w3\<rparr>)"
  using assms
  by (simp add: import_data_def invoke_def ReaderManager_load_def ChunkerManager_chunk_def
      EmbeddingManager_embed_def say_def)

theorem import_data_success_witness:
  "import_data [] [''a b'', ''c''] [] [] ''Text'' 100 50 running =
     Returned (Some [''a b'', ''c''])
       (running\<lparr>console := [Good ''Embedding successful''],
                calls := [Call_load [] [''a b'', ''c''] [] [] ''Text'',
                          Call_chunk [''a b'', ''c''] 100 50,
                          Call_embed [''a b'', ''c''] (Some embedded_client)],
                world := [JStr ''a b'', JStr ''c'']\<rparr>)"
proof -
  have r: "selected_reader (reader_manager (self running)) = Some text_reader"
    by (simp add: running_def fresh_def blank_manager_def demo_readers_def)
  have k: "selected_chunker (chunker_manager (self running)) = Some whole_chunker"
    by (simp add: running_def fresh_def blank_manager_def demo_chunkers_def)
  have e: "selected_embedder (embedder_manager (self running)) = Some ada_embedder"
    by (simp add: running_def fresh_def blank_manager_def demo_embedders_def)
  have l: "load text_reader [] [''a b'', ''c''] [] [] ''Text'' (world running) =
             Returned [''a b'', ''c''] []"
    by (simp add: text_reader_def running_def fresh_def)
  have c: "chunk whole_chunker [''a b'', ''c''] 100 50 [] = Returned [''a b'', ''c''] []"
    by (simp add: whole_chunker_def)
  have m: "embed_documents ada_embedder [''a b'', ''c''] (client (self running)) [] =
             Returned (True, [''a b'', ''c'']) [JStr ''a b'', JStr ''c'']"
    by (simp add: ada_embedder_def)
  show ?thesis
    using import_data_success [OF r k e l c m]
    by (simp add: running_def fresh_def blank_manager_def)
qed

text \<open>
  Claim C2. For every batch where the embed stage reports failure, \<^verbatim>\<open>import_data\<close>
  returns \<^verbatim>\<open>None\<close>, the error value of its result, and hands out neither the document
  list nor part of it.
\<close>

theorem import_data_failure:
  assumes "selected_reader (reader_manager (self s)) = Some r"
    and "selected_chunker (chunker_manager (self s)) = Some k"
    and "selected_embedder (embedder_manager (self s)) = Some e"
    and "load r bytes contents paths fileNames document_type (world s) = Returned loaded w1"
    and "chunk k loaded units overlap w1 = Returned chunked w2"
    and "embed_documents e chunked (client (self s)) w2 = Returned (False, embedded) w3"
  shows "import_data bytes contents paths fileNames document_type units overlap s =
           Returned None
             (s\<lparr>console := console s @ [Fail ''Embedding failed''],
                calls := calls s @ [Call_load bytes contents paths fileNames document_type,
                                    Call_chunk loaded units overlap,
                                    Call_embed chunked (client (self s))],
                world := w3\<rparr>)"
  using assms
  by (simp add: import_data_def invoke_def ReaderManager_load_def ChunkerManager_chunk_def
      EmbeddingManager_embed_def say_def)

theorem import_data_failure_witness:
  "import_data [] [''a b'', ''c''] [] [] ''Text'' 100 50 failing =
     Returned None
       (failing\<lparr>console := [Fail ''Embedding failed''],
                calls := [Call_load [] [''a b'', ''c''] [] [] ''Text'',
                          Call_chunk [''a b'', ''c''] 100 50,
                          Call_embed [''a b'', ''c''] (Some embedded_client)],
                world := []\<rparr>)"
proof -
  have r: "selected_reader (reader_manager (self failing)) = Some text_reader"
    by (simp add: failing_def running_def fresh_def blank_manager_def demo_readers_def)
  have k: "selected_chunker (chunker_manager (self failing)) = Some whole_chunker"
    by (simp add: failing_def running_def fresh_def blank_manager_def demo_chunkers_def)
  have e: "selected_embedder (embedder_manager (self failing)) = Some broken_embedder"
    by (simp add: failing_def running_def fresh_def blank_manager_def demo_embedders_def)
  have l: "load text_reader [] [''a b'', ''c''] [] [] ''Text'' (world failing) =
             Returned [''a b'', ''c''] []"
    by (simp add: text_reader_def failing_def running_def fresh_def)
  have c: "chunk whole_chunker [''a b'', ''c''] 100 50 [] = Returned [''a b'', ''c''] []"
    by (simp add: whole_chunker_def)
  have m: "embed_documents broken_embedder [''a b'', ''c''] (client (self failing)) [] =
             Returned (False, [''a b'', ''c'']) []"
    by (simp add: broken_embedder_def)
  show ?thesis
    using import_data_failure [OF r k e l c m]
    by (simp add: failing_def running_def fresh_def blank_manager_def)
qed

subsection \<open>Selecting strategies\<close>

text \<open>
  Claim C7. For each of the three registries, selecting a name answers true iff the name
  is registered; then the implementation registered under it is the selected one,
  otherwise nothing changes at all; the registered entries stay, and the other two
  registries are untouched.
\<close>

theorem select_strategy:
  "(\<exists>ok s'. reader_set_reader name s = Returned ok s'
       \<and> (ok \<longleftrightarrow> name \<in> dom (readers (reader_manager (self s))))
       \<and> (ok \<longrightarrow> selected_reader (reader_manager (self s')) = readers (reader_manager (self s)) name)
       \<and> (\<not> ok \<longrightarrow> s' = s)
       \<and> readers (reader_manager (self s')) = readers (reader_manager (self s))
       \<and> chunker_manager (self s') = chunker_manager (self s)
       \<and> embedder_manager (self s') = embedder_manager (self s))
   \<and> (\<exists>ok s'. chunker_set_chunker name s = Returned ok s'
       \<and> (ok \<longleftrightarrow> name \<in> dom (chunkers (chunker_manager (self s))))
       \<and> (ok \<longrightarrow> selected_chunker (chunker_manager (self s')) = chunkers (chunker_manager (self s)) name)
       \<and> (\<not> ok \<longrightarrow> s' = s)
       \<and> chunkers (chunker_manager (self s')) = chunkers (chunker_manager (self s))
       \<and> reader_manager (self s') = reader_manager (self s)
       \<and> embedder_manager (self s') = embedder_manager (self s))
   \<and> (\<exists>ok s'. embedder_set_embedder name s = Returned ok s'
       \<and> (ok \<longleftrightarrow> name \<in> dom (embedders (embedder_manager (self s))))
       \<and> (ok \<longrightarrow> selected_embedder (embedder_manager (self s')) = embedders (embedder_manager (self s)) name)
       \<and> (\<not> ok \<longrightarrow> s' = s)
       \<and> embedders (embedder_manager (self s')) = embedders (embedder_manager (self s))
       \<and> reader_manager (self s') = reader_manager (self s)
       \<and> chunker_manager (self s') = chunker_manager (self s))"
proof (intro conjI)
  show "\<exists>ok s'. reader_set_reader name s = Returned ok s'
       \<and> (ok \<longleftrightarrow> name \<in> dom (readers (reader_manager (self s))))
       \<and> (ok \<longrightarrow> selected_reader (reader_manager (self s')) = readers (reader_manager (self s)) name)
       \<and> (\<not> ok \<longrightarrow> s' = s)
       \<and> readers (reader_manager (self s')) = readers (reader_manager (self s))
       \<and> chunker_manager (self s') = chunker_manager (self s)
       \<and> embedder_manager (self s') = embedder_manager (self s)"
    by (cases "readers (reader_manager (self s)) name")
       (auto simp add: reader_set_reader_def set_reader_def)
  show "\<exists>ok s'. chunker_set_chunker name s = Returned ok s'
       \<and> (ok \<longleftrightarrow> name \<in> dom (chunkers (chunker_manager (self s))))
       \<and> (ok \<longrightarrow> selected_chunker (chunker_manager (self s')) = chunkers (chunker_manager (self s)) name)
       \<and> (\<not> ok \<longrightarrow> s' = s)
       \<and> chunkers (chunker_manager (self s')) = chunkers (chunker_manager (self s))
       \<and> reader_manager (self s') = reader_manager (self s)
       \<and> embedder_manager (self s') = embedder_manager (self s)"
    by (cases "chunkers (chunker_manager (self s)) name")
       (auto simp add: chunker_set_chunker_def set_chunker_def)
  show "\<exists>ok s'. embedder_set_embedder name s = Returned ok s'
       \<and> (ok \<longleftrightarrow> name \<in> dom (embedders (embedder_manager (self s))))
       \<and> (ok \<longrightarrow> selected_embedder (embedder_manager (self s')) = embedders (embedder_manager (self s)) name)
       \<and> (\<not> ok \<longrightarrow> s' = s)
       \<and> embedders (embedder_manager (self s')) = embedders (embedder_manager (self s))
       \<and> reader_manager (self s') = reader_manager (self s)
       \<and> chunker_manager (self s') = chunker_manager (self s)"
    by (cases "embedders (embedder_manager (self s)) name")
       (auto simp add: embedder_set_embedder_def set_embedder_def)
qed

theorem select_strategy_witness:
  "(\<exists>ok s'. reader_set_reader ''SimpleReader'' running = Returned ok s' \<and> ok
      \<and> selected_reader (reader_manager (self s')) = Some text_reader)
   \<and> (\<exists>ok s'. chunker_set_chunker ''NoSuchChunker'' running = Returned ok s' \<and> \<not> ok \<and> s' = running)
   \<and> (\<exists>ok s'. embedder_set_embedder ''MiniLMEmbedder'' running = Returned ok s' \<and> ok
      \<and> selected_embedder (embedder_manager (self s')) = Some broken_embedder
      \<and> reader_manager (self s') = reader_manager (self running))"
  using select_strategy [of "''SimpleReader''" running]
    select_strategy [of "''NoSuchChunker''" running]
    select_strategy [of "''MiniLMEmbedder''" running]
  by (simp add: running_def fresh_def blank_manager_def demo_readers_def demo_chunkers_def
      demo_embedders_def reader_set_reader_def set_reader_def chunker_set_chunker_def
      set_chunker_def embedder_set_embedder_def set_embedder_def)

subsection \<open>Connecting to the store\<close>

text \<open>
  Claim C10. When \<^verbatim>\<open>VERBA_URL\<close> is unset (or empty) and \<^verbatim>\<open>import openai\<close> raised,
  \<^verbatim>\<open>setup_client\<close> takes the embedded branch, evaluates the unbound name
  \<^verbatim>\<open>openai\<close> and raises; no client is created or returned, although the key check
  itself had recorded \<^verbatim>\<open>OPENAI_API_KEY\<close> as absent without failing.
\<close>

theorem setup_client_embedded_needs_openai:
  assumes "environ_get P ''VERBA_URL'' = []" and "openai_module P = None"
  shows "\<exists>s'. setup_client P s = Raised UnboundLocalError s' \<and> calls s' = calls s
          \<and> weaviate_type (self s') = ''Weaviate Embedded''
          \<and> environment_variables (self s') ''OPENAI_API_KEY'' = Some False"
  using assms
  by (simp add: setup_client_def check_openai_unbound Let_def set_weaviate_type_def say_def
      patch_ssl_def set_environment_variable_def)

theorem setup_client_embedded_needs_openai_witness:
  "environ_get (demo_platform True None) ''VERBA_URL'' = [] \<and>
   openai_module (demo_platform True None) = None \<and>
   (\<exists>s'. setup_client (demo_platform True None) fresh = Raised UnboundLocalError s'
          \<and> calls s' = calls fresh
          \<and> weaviate_type (self s') = ''Weaviate Embedded''
          \<and> environment_variables (self s') ''OPENAI_API_KEY'' = Some False)"
proof -
  have a: "environ_get (demo_platform True None) ''VERBA_URL'' = []"
    by (simp add: environ_get_def demo_platform_def)
  have b: "openai_module (demo_platform True None) = None"
    by (simp add: demo_platform_def)
  from a b setup_client_embedded_needs_openai [OF a b, of fresh] show ?thesis by simp
qed

subsection \<open>Reading documents back\<close>

lemma demo_honours_limit: "honours_limit (demo_platform ok openai)"
  by (auto simp add: honours_limit_def demo_platform_def get_data_def split: if_splits)

text \<open>
  Claim C3. The two methods that name a storage class, \<^verbatim>\<open>retrieve_all_documents\<close> and
  \<^verbatim>\<open>retrieve_document\<close>, hand the store the same class name for the same selected
  embedder: the prefix \<^verbatim>\<open>Document_\<close> followed by the embedder's vectorizer identifier
  with every character that is not an ASCII letter removed, the others kept in order.
\<close>

theorem class_name_rule:
  assumes "selected_embedder (embedder_manager (self s)) = Some e"
    and "client (self s) = Some c"
  shows "\<exists>q. calls (final (retrieve_all_documents P s)) = calls s @ [Call_query_do c q]
           \<and> class_name q = ''Document_'' @ filter is_ascii_letter (vectorizer e)
           \<and> calls (final (retrieve_document P doc_id s)) =
               calls s @ [Call_get_by_id c doc_id (class_name q)]"
  using assms
  by (simp add: retrieve_all_documents_def retrieve_document_def selected_vectorizer_def
      the_client_def say_def Let_def invoke_def strip_non_letters_filter
      split: outcome.splits sum.splits)

theorem class_name_rule_witness:
  "\<exists>q. calls (final (retrieve_all_documents (demo_platform True (Some None)) running)) =
          [Call_query_do embedded_client q]
       \<and> class_name q = ''Document_textvecopenai''
       \<and> calls (final (retrieve_document (demo_platform True (Some None)) ''7'' running)) =
           [Call_get_by_id embedded_client ''7'' (class_name q)]"
proof -
  have e: "selected_embedder (embedder_manager (self running)) = Some ada_embedder"
    by (simp add: running_def fresh_def blank_manager_def demo_embedders_def)
  have c: "client (self running) = Some embedded_client"
    by (simp add: running_def fresh_def blank_manager_def)
  have v: "filter is_ascii_letter (vectorizer ada_embedder) = ''textvecopenai''"
    by (simp add: ada_embedder_def is_ascii_letter_def)
  have n: "calls running = []"
    by (simp add: running_def fresh_def)
  show ?thesis
    using class_name_rule [OF e c, of "demo_platform True (Some None)" "''7''"]
    by (simp add: v n)
qed

text \<open>
  Claim C8. \<^verbatim>\<open>retrieve_all_documents\<close> makes one call, a query on the selected
  embedder's storage class for the properties \<^verbatim>\<open>doc_name\<close>, \<^verbatim>\<open>doc_type\<close> and
  \<^verbatim>\<open>doc_link\<close> plus the record id, with limit 10000; with a store that keeps to the
  limit of a query, the list it returns has at most 10000 records.
\<close>

theorem retrieve_all_documents_query:
  assumes "honours_limit P"
    and "selected_embedder (embedder_manager (self s)) = Some e"
    and "client (self s) = Some c"
  shows "calls (final (retrieve_all_documents P s)) =
           calls s @ [Call_query_do c
                        \<lparr>class_name = ''Document_'' @ strip_non_letters (vectorizer e),
                         properties = Some [''doc_name'', ''doc_type'', ''doc_link''],
                         additional = [''id''],
                         limit = 10000\<rparr>]
         \<and> (\<forall>results s'. retrieve_all_documents P s = Returned results s'
               \<longrightarrow> length (records results) \<le> 10000)"
proof -
  let ?cn = "''Document_'' @ strip_non_letters (vectorizer e)"
  let ?q = "\<lparr>class_name = ?cn, properties = Some [''doc_name'', ''doc_type'', ''doc_link''],
             additional = [''id''], limit = 10000\<rparr>"
  have calls_eq: "calls (final (retrieve_all_documents P s)) = calls s @ [Call_query_do c ?q]"
    using assms(2,3)
    by (simp add: retrieve_all_documents_def selected_vectorizer_def the_client_def say_def
        Let_def invoke_def split: outcome.splits sum.splits)
  have bound: "length (records results) \<le> 10000"
    if ret: "retrieve_all_documents P s = Returned results s'" for results s'
  proof -
    from ret assms(2,3) obtain r w' where
      q: "query_do P c ?q (world s) = Returned r w'" and d: "get_data r ?cn = Inr results"
      by (auto simp add: retrieve_all_documents_def selected_vectorizer_def the_client_def
          say_def Let_def invoke_def split: outcome.splits sum.splits)
    from assms(1) q d have "int (length (records results)) \<le> limit ?q"
      unfolding honours_limit_def by (metis query.select_convs(1))
    then show ?thesis by simp
  qed
  from calls_eq bound show ?thesis by blast
qed

theorem retrieve_all_documents_query_witness:
  "honours_limit (demo_platform True (Some None)) \<and>
   calls (final (retrieve_all_documents (demo_platform True (Some None)) running)) =
     [Call_query_do embedded_client
        \<lparr>class_name = ''Document_textvecopenai'',
         properties = Some [''doc_name'', ''doc_type'', ''doc_link''],
         additional = [''id''], limit = 10000\<rparr>]
   \<and> retrieve_all_documents (demo_platform True (Some None)) running =
       Returned (JArr []) (running\<lparr>console := [Print ''Document_textvecopenai''],
          calls := [Call_query_do embedded_client
            \<lparr>class_name = ''Document_textvecopenai'',
             properties = Some [''doc_name'', ''doc_type'', ''doc_link''],
             additional = [''id''], limit = 10000\<rparr>]\<rparr>)
   \<and> length (records (JArr [])) \<le> 10000"
proof -
  have h: "honours_limit (demo_platform True (Some None))"
    by (rule demo_honours_limit)
  have e: "selected_embedder (embedder_manager (self running)) = Some ada_embedder"
    by (simp add: running_def fresh_def blank_manager_def demo_embedders_def)
  have c: "client (self running) = Some embedded_client"
    by (simp add: running_def fresh_def blank_manager_def)
  have v: "strip_non_letters (vectorizer ada_embedder) = ''textvecopenai''"
    by (simp add: ada_embedder_def is_ascii_letter_def)
  have r: "retrieve_all_documents (demo_platform True (Some None)) running =
       Returned (JArr []) (running\<lparr>console := [Print ''Document_textvecopenai''],
          calls := [Call_query_do embedded_client
            \<lparr>class_name = ''Document_textvecopenai'',
             properties = Some [''doc_name'', ''doc_type'', ''doc_link''],
             additional = [''id''], limit = 10000\<rparr>]\<rparr>)"
    by (simp add: retrieve_all_documents_def selected_vectorizer_def the_client_def say_def
        Let_def invoke_def demo_platform_def get_data_def running_def fresh_def
        blank_manager_def demo_embedders_def ada_embedder_def is_ascii_letter_def)
  show ?thesis
    using retrieve_all_documents_query [OF h e c] h r
    by (simp add: v running_def fresh_def)
qed

subsection \<open>What a method leaves of the manager\<close>

text \<open>None of the pipeline and retrieval methods assigns to a field of \<^verbatim>\<open>self\<close>.\<close>

lemma self_say: "self (say m s) = self s"
  by (simp add: say_def)

lemma self_import_data:
  "self (final (import_data bytes contents paths fileNames document_type units overlap s)) = self s"
  by (simp add: import_data_def invoke_def say_def split: outcome.splits prod.splits)

lemma self_retrieve_all_documents: "self (final (retrieve_all_documents P s)) = self s"
  by (simp add: retrieve_all_documents_def invoke_def say_def the_client_def Let_def
      split: outcome.splits sum.splits option.splits)

lemma self_retrieve_document: "self (final (retrieve_document P doc_id s)) = self s"
  by (simp add: retrieve_document_def invoke_def the_client_def Let_def
      split: outcome.splits sum.splits option.splits)

lemma self_reset: "self (final (reset P s)) = self s"
  by (simp add: reset_def invoke_def the_client_def split: outcome.splits sum.splits option.splits)

lemma self_count_objects: "self (final (count_objects P items schemas s)) = self s"
proof (induction items arbitrary: schemas s)
  case Nil
  then show ?case by simp
next
  case (Cons cls rest)
  show ?case
  proof (cases "the_client s")
    case (Inl e)
    then show ?thesis by simp
  next
    case (Inr c)
    show ?thesis
    proof (cases "getitem cls ''class''")
      case (Inl e)
      with Inr show ?thesis by simp
    next
      case name: (Inr j)
      show ?thesis
      proof (cases j)
        case (JStr n)
        let ?q = "\<lparr>class_name = n, properties = None, additional = [''id''], limit = 100000\<rparr>"
        show ?thesis
        proof (cases "invoke (Call_query_do c ?q) (query_do P c ?q) s")
          case (Raised e s')
          with self_invoke [of "Call_query_do c ?q" "query_do P c ?q" s] Inr name JStr
          show ?thesis by simp
        next
          case (Returned results s')
          with self_invoke [of "Call_query_do c ?q" "query_do P c ?q" s]
          have s': "self s' = self s" by simp
          from Inr name JStr Returned s' Cons.IH show ?thesis
            by (simp split: sum.splits)
        qed
      qed (use Inr name in simp_all)
    qed
  qed
qed

lemma self_get_schemas: "self (final (get_schemas P s)) = self s"
proof (cases "the_client s")
  case (Inl e)
  then show ?thesis by (simp add: get_schemas_def)
next
  case (Inr c)
  show ?thesis
  proof (cases "invoke (Call_schema_get c) (schema_get P c) s")
    case (Raised e s')
    with self_invoke [of "Call_schema_get c" "schema_get P c" s] Inr
    show ?thesis by (simp add: get_schemas_def)
  next
    case (Returned info s1)
    with self_invoke [of "Call_schema_get c" "schema_get P c" s]
    have "self s1 = self s" by simp
    with Inr Returned show ?thesis
      by (simp add: get_schemas_def self_count_objects split: sum.splits)
  qed
qed

lemma self_init_schemas_loop: "self (final (init_schemas_loop P vs s)) = self s"
proof (induction vs arbitrary: s)
  case Nil
  then show ?case by simp
next
  case (Cons v vs)
  let ?c = "Call_init_schemas (client (self s)) v False True"
  let ?f = "init_schemas P (client (self s)) v False True"
  show ?case
  proof (cases "invoke ?c ?f s")
    case (Raised e s')
    with self_invoke [of ?c ?f s] show ?thesis by simp
  next
    case (Returned ok s')
    with self_invoke [of ?c ?f s] have "self s' = self s" by simp
    with Returned Cons.IH [of s'] show ?thesis by simp
  qed
qed

subsection \<open>Construction\<close>

lemma report_client_Some:
  "report_client (Some c) s = Returned (Some c) (say (Good ''Connected to Weaviate'') s)"
  by (simp add: report_client_def)

text \<open>What \<open>setup_client\<close> leaves of the manager when it returns.\<close>

lemma setup_client_returned:
  assumes "setup_client P s = Returned c s1"
  shows "c \<noteq> None \<and> client (self s1) = client (self s)
         \<and> installed_libraries (self s1) = installed_libraries (self s)
         \<and> (\<exists>a. calls s1 = calls s @ [Call_Client a])"
  using assms
  by (auto simp add: setup_client_def check_openai_def Let_def report_client_Some invoke_def
      say_def set_weaviate_type_def set_environment_variable_def patch_ssl_def
      split: if_splits option.splits outcome.splits)

lemma setup_client_offline:
  assumes "\<forall>a w. is_Raised (weaviate_Client P a w)"
  shows "\<exists>e s'. setup_client P s = Raised e s' \<and> client (self s') = client (self s)
           \<and> (calls s' = calls s \<or> (\<exists>a. calls s' = calls s @ [Call_Client a]))"
proof -
  have no: "weaviate_Client P a w \<noteq> Returned c w'" for a w c w'
    using assms by (metis is_Raised.simps(2))
  show ?thesis
    by (auto simp add: setup_client_def check_openai_def Let_def report_client_Some invoke_def
        say_def set_weaviate_type_def set_environment_variable_def patch_ssl_def no
        split: if_splits option.splits outcome.splits)
qed

lemma setup_client_online:
  assumes "environ_get P ''VERBA_URL'' \<noteq> [] \<or> openai_module P \<noteq> None"
    and "\<forall>a w. \<not> is_Raised (weaviate_Client P a w)"
  shows "\<exists>c a s1. setup_client P s = Returned (Some c) s1 \<and> calls s1 = calls s @ [Call_Client a]"
proof -
  have no: "weaviate_Client P a w \<noteq> Raised e w'" for a w e w'
    using assms(2) by (metis is_Raised.simps(1))
  show ?thesis
    using assms(1)
    by (auto simp add: setup_client_def check_openai_def Let_def report_client_Some invoke_def
        say_def set_weaviate_type_def set_environment_variable_def patch_ssl_def no
        split: if_splits option.splits outcome.splits)
qed

lemma init_schemas_loop_calls:
  assumes "\<forall>c v w. \<not> is_Raised (init_schemas P c v False True w)"
  shows "\<exists>s'. init_schemas_loop P vs s = Returned () s' \<and> self s' = self s
           \<and> calls s' = calls s @ map (\<lambda>v. Call_init_schemas (client (self s)) v False True) vs"
proof (induction vs arbitrary: s)
  case Nil
  then show ?case by simp
next
  case (Cons v vs)
  let ?c = "Call_init_schemas (client (self s)) v False True"
  let ?f = "init_schemas P (client (self s)) v False True"
  from assms obtain ok w where f: "?f (world s) = Returned ok w"
    by (cases "?f (world s)") (metis is_Raised.simps(1), blast)
  let ?s1 = "s\<lparr>calls := calls s @ [?c], world := w\<rparr>"
  from f have i: "invoke ?c ?f s = Returned ok ?s1"
    by (simp add: invoke_def)
  from Cons.IH [of ?s1] obtain s' where
    "init_schemas_loop P vs ?s1 = Returned () s'" and "self s' = self ?s1"
    and "calls s' = calls ?s1 @ map (\<lambda>v. Call_init_schemas (client (self ?s1)) v False True) vs"
    by blast
  with i show ?case by simp
qed

lemma setup_client_remote:
  assumes "environ_get P ''VERBA_URL'' \<noteq> []"
  shows "calls (final (setup_client P s)) =
           calls s @ [Call_Client
             \<lparr>url = Some (environ_get P ''VERBA_URL''),
              additional_headers =
                (if openai_module P \<noteq> None \<and> environ_get P ''OPENAI_API_KEY'' \<noteq> []
                 then [(''X-OpenAI-Api-Key'', Some (environ_get P ''OPENAI_API_KEY''))] else []),
              auth_client_secret = Some (AuthApiKey (environ_get P ''VERBA_API_KEY'')),
              embedded_options = None\<rparr>]
         \<and> weaviate_type (self (final (setup_client P s))) = ''Weaviate Cluster''"
  using assms
  by (auto simp add: setup_client_def check_openai_def Let_def report_client_Some invoke_def
      say_def set_weaviate_type_def set_environment_variable_def
      split: option.splits outcome.splits)

lemma setup_client_embedded:
  assumes "environ_get P ''VERBA_URL'' = []" and "openai_module P = Some attr"
  shows "calls (final (setup_client P s)) =
           calls s @ [Call_Client
             \<lparr>url = None,
              additional_headers =
                [(''X-OpenAI-Api-Key'',
                  if environ_get P ''OPENAI_API_KEY'' \<noteq> []
                  then Some (environ_get P ''OPENAI_API_KEY'') else attr)],
              auth_client_secret = None,
              embedded_options =
                Some (EmbeddedOptions ''./.verba/local/share/'' ''./.verba/cache/weaviate-embedded'')\<rparr>]
         \<and> weaviate_type (self (final (setup_client P s))) = ''Weaviate Embedded''"
  using assms
  by (auto simp add: setup_client_def check_openai_def Let_def report_client_Some invoke_def
      say_def set_weaviate_type_def set_environment_variable_def patch_ssl_def
      split: option.splits outcome.splits)

lemma VerbaManager_init_returned:
  assumes "VerbaManager_init P rm km em s = Returned u s'"
  shows "\<exists>c s1. setup_client P
            (s\<lparr>self := \<lparr>reader_manager = rm, chunker_manager = km, embedder_manager = em,
                         environment_variables = Map.empty, installed_libraries = Map.empty,
                         weaviate_type = [], client = None\<rparr>\<rparr>) = Returned c s1
          \<and> self s' = self (verify_variables P (verify_installed_libraries P
                              (s1\<lparr>self := (self s1)\<lparr>client := c\<rparr>\<rparr>)))"
proof -
  let ?s0 = "s\<lparr>self := \<lparr>reader_manager = rm, chunker_manager = km, embedder_manager = em,
                         environment_variables = Map.empty, installed_libraries = Map.empty,
                         weaviate_type = [], client = None\<rparr>\<rparr>"
  from assms obtain c s1 where sc: "setup_client P ?s0 = Returned c s1"
    by (cases "setup_client P ?s0") (simp_all add: VerbaManager_init_def)
  let ?s3 = "verify_variables P (verify_installed_libraries P (s1\<lparr>self := (self s1)\<lparr>client := c\<rparr>\<rparr>))"
  from assms sc have l: "and_then (init_schemas_loop P (VECTORIZERS P) ?s3)
                           (\<lambda>u. init_schemas_loop P (EMBEDDINGS P)) = Returned u s'"
    by (simp add: VerbaManager_init_def Let_def)
  then obtain u4 s4 where l1: "init_schemas_loop P (VECTORIZERS P) ?s3 = Returned u4 s4"
    by (cases "init_schemas_loop P (VECTORIZERS P) ?s3") simp_all
  with l have l2: "init_schemas_loop P (EMBEDDINGS P) s4 = Returned u s'" by simp
  from l1 self_init_schemas_loop [of P "VECTORIZERS P" ?s3] have "self s4 = self ?s3" by simp
  moreover from l2 self_init_schemas_loop [of P "EMBEDDINGS P" s4] have "self s' = self s4" by simp
  ultimately show ?thesis using sc by simp
qed

lemma VerbaManager_init_flags:
  assumes "VerbaManager_init P rm km em s = Returned u s'"
  shows "installed_libraries (self s') = [''spacy'' \<mapsto> spacy_importable P]
         \<and> environment_variables (self s') ''OPENAI_API_KEY'' =
             Some (environ_get P ''OPENAI_API_KEY'' \<noteq> [])
         \<and> client (self s') \<noteq> None"
proof -
  from VerbaManager_init_returned [OF assms] obtain c s1 where
    sc: "setup_client P
            (s\<lparr>self := \<lparr>reader_manager = rm, chunker_manager = km, embedder_manager = em,
                         environment_variables = Map.empty, installed_libraries = Map.empty,
                         weaviate_type = [], client = None\<rparr>\<rparr>) = Returned c s1"
    and s': "self s' = self (verify_variables P (verify_installed_libraries P
                              (s1\<lparr>self := (self s1)\<lparr>client := c\<rparr>\<rparr>)))"
    by blast
  from setup_client_returned [OF sc] have "c \<noteq> None" and "installed_libraries (self s1) = Map.empty"
    by simp_all
  with s' show ?thesis
    by (simp add: verify_variables_def verify_installed_libraries_def set_environment_variable_def)
qed

lemma demo_construction:
  "VerbaManager_init (demo_platform ok (Some None)) demo_readers demo_chunkers demo_embedders fresh =
     Returned () constructed"
  by (simp add: VerbaManager_init_def setup_client_def check_openai_def Let_def report_client_def
      invoke_def say_def set_weaviate_type_def set_environment_variable_def patch_ssl_def
      environ_get_def verify_variables_def verify_installed_libraries_def demo_platform_def
      fresh_def blank_manager_def constructed_def running_def embedded_client_def)

text \<open>
  Claim C9. The two flag dictionaries are filled during construction
  (\<^verbatim>\<open>installed_libraries\<close> by \<^verbatim>\<open>verify_installed_libraries\<close>, the key entry of
  \<^verbatim>\<open>environment_variables\<close> last by \<^verbatim>\<open>verify_variables\<close>), and a call of
  \<^verbatim>\<open>import_data\<close>, \<^verbatim>\<open>retrieve_all_documents\<close>, \<^verbatim>\<open>retrieve_document\<close>,
  \<^verbatim>\<open>get_schemas\<close> or \<^verbatim>\<open>reset\<close> leaves both as they were, whether it returns or
  raises.
\<close>

theorem flags_computed_once:
  "(\<forall>u s'. VerbaManager_init P rm km em s0 = Returned u s' \<longrightarrow>
       installed_libraries (self s') = [''spacy'' \<mapsto> spacy_importable P]
       \<and> environment_variables (self s') ''OPENAI_API_KEY'' =
           Some (environ_get P ''OPENAI_API_KEY'' \<noteq> []))
   \<and> environment_variables
        (self (final (import_data bytes contents paths fileNames document_type units overlap s))) =
      environment_variables (self s)
   \<and> installed_libraries
        (self (final (import_data bytes contents paths fileNames document_type units overlap s))) =
      installed_libraries (self s)
   \<and> environment_variables (self (final (retrieve_all_documents P s))) = environment_variables (self s)
   \<and> installed_libraries (self (final (retrieve_all_documents P s))) = installed_libraries (self s)
   \<and> environment_variables (self (final (retrieve_document P doc_id s))) = environment_variables (self s)
   \<and> installed_libraries (self (final (retrieve_document P doc_id s))) = installed_libraries (self s)
   \<and> environment_variables (self (final (get_schemas P s))) = environment_variables (self s)
   \<and> installed_libraries (self (final (get_schemas P s))) = installed_libraries (self s)
   \<and> environment_variables (self (final (reset P s))) = environment_variables (self s)
   \<and> installed_libraries (self (final (reset P s))) = installed_libraries (self s)"
  using VerbaManager_init_flags [of P rm km em s0]
  by (simp add: self_import_data self_retrieve_all_documents self_retrieve_document
      self_get_schemas self_reset)

theorem flags_computed_once_witness:
  "installed_libraries (self constructed) = [''spacy'' \<mapsto> False]
   \<and> environment_variables (self constructed) ''OPENAI_API_KEY'' = Some False
   \<and> environment_variables
        (self (final (import_data [] [''a b'', ''c''] [] [] ''Text'' 100 50 running))) =
      environment_variables (self running)
   \<and> installed_libraries
        (self (final (import_data [] [''a b'', ''c''] [] [] ''Text'' 100 50 running))) =
      installed_libraries (self running)
   \<and> environment_variables (self (final (reset (demo_platform True (Some None)) running))) =
      environment_variables (self running)
   \<and> installed_libraries (self (final (get_schemas (demo_platform True (Some None)) running))) =
      installed_libraries (self running)"
  using flags_computed_once [of "demo_platform True (Some None)" demo_readers demo_chunkers
      demo_embedders fresh "[]" "[''a b'', ''c'']" "[]" "[]" "''Text''" 100 50 running "''7''"]
  by (simp add: demo_construction) (simp add: demo_platform_def environ_get_def)

text \<open>
  Claim C5. When the connection to the store cannot be set up, construction ends with
  that exception: no manager comes into being, its client field was never set, and the
  only collaborator call made is at most the one connection attempt, so schema setup is
  never entered. Conversely, a construction that returns has a client.
\<close>

theorem connection_failure_is_fatal:
  assumes "\<forall>a w. is_Raised (weaviate_Client P a w)"
  shows "(\<exists>e s'. VerbaManager_init P rm km em s = Raised e s' \<and> client (self s') = None
            \<and> (calls s' = calls s \<or> (\<exists>a. calls s' = calls s @ [Call_Client a]))
            \<and> filter is_schema_call (calls s') = filter is_schema_call (calls s))
         \<and> (\<forall>Q s0 u s1. VerbaManager_init Q rm km em s0 = Returned u s1
               \<longrightarrow> client (self s1) \<noteq> None)"
proof -
  let ?s0 = "s\<lparr>self := \<lparr>reader_manager = rm, chunker_manager = km, embedder_manager = em,
                         environment_variables = Map.empty, installed_libraries = Map.empty,
                         weaviate_type = [], client = None\<rparr>\<rparr>"
  from setup_client_offline [OF assms, of ?s0] obtain e s' where
    "setup_client P ?s0 = Raised e s'" and "client (self s') = client (self ?s0)"
    and "calls s' = calls ?s0 \<or> (\<exists>a. calls s' = calls ?s0 @ [Call_Client a])"
    by blast
  then have "\<exists>e s'. VerbaManager_init P rm km em s = Raised e s' \<and> client (self s') = None
            \<and> (calls s' = calls s \<or> (\<exists>a. calls s' = calls s @ [Call_Client a]))
            \<and> filter is_schema_call (calls s') = filter is_schema_call (calls s)"
    by (auto simp add: VerbaManager_init_def)
  moreover have "client (self s1) \<noteq> None"
    if "VerbaManager_init Q rm km em s0 = Returned u s1" for Q s0 u s1
    using VerbaManager_init_flags [OF that] by simp
  ultimately show ?thesis by blast
qed

theorem connection_failure_is_fatal_witness:
  "(\<forall>a w. is_Raised (weaviate_Client offline_platform a w))
   \<and> (\<exists>e s'. VerbaManager_init offline_platform demo_readers demo_chunkers demo_embedders fresh =
                 Raised e s'
         \<and> client (self s') = None
         \<and> length (calls s') \<le> 1
         \<and> filter is_schema_call (calls s') = [])
   \<and> client (self constructed) \<noteq> None"
proof -
  have h: "\<forall>a w. is_Raised (weaviate_Client offline_platform a w)"
    by (simp add: offline_platform_def)
  have n: "calls fresh = []" by (simp add: fresh_def)
  from connection_failure_is_fatal [OF h, of demo_readers demo_chunkers demo_embedders fresh]
    demo_construction [of True]
  show ?thesis using h by (auto simp add: n)
qed

text \<open>
  Claim C4, as amended. When the client is set up and no schema-setup call raises,
  construction calls schema setup once for every identifier of \<^verbatim>\<open>VECTORIZERS\<close>, then
  once for every identifier of \<^verbatim>\<open>EMBEDDINGS\<close>, each time with the client just made,
  force off and check on, whatever the earlier calls answered. The answers themselves
  are dropped.
\<close>

theorem schema_setup_for_every_identifier:
  assumes "environ_get P ''VERBA_URL'' \<noteq> [] \<or> openai_module P \<noteq> None"
    and "\<forall>a w. \<not> is_Raised (weaviate_Client P a w)"
    and "\<forall>c v w. \<not> is_Raised (init_schemas P c v False True w)"
  shows "\<exists>c a s'. VerbaManager_init P rm km em s = Returned () s' \<and> client (self s') = Some c
           \<and> calls s' = calls s @ Call_Client a #
               map (\<lambda>v. Call_init_schemas (Some c) v False True) (VECTORIZERS P @ EMBEDDINGS P)"
proof -
  let ?s0 = "s\<lparr>self := \<lparr>reader_manager = rm, chunker_manager = km, embedder_manager = em,
                         environment_variables = Map.empty, installed_libraries = Map.empty,
                         weaviate_type = [], client = None\<rparr>\<rparr>"
  from setup_client_online [OF assms(1,2), of ?s0] obtain c a s1 where
    sc: "setup_client P ?s0 = Returned (Some c) s1" and c1: "calls s1 = calls s @ [Call_Client a]"
    by auto
  let ?s3 = "verify_variables P (verify_installed_libraries P (s1\<lparr>self := (self s1)\<lparr>client := Some c\<rparr>\<rparr>))"
  have cl3: "client (self ?s3) = Some c" and c3: "calls ?s3 = calls s1"
    by (simp_all add: verify_variables_def verify_installed_libraries_def set_environment_variable_def)
  from init_schemas_loop_calls [OF assms(3), of "VECTORIZERS P" ?s3] obtain s4 where
    l1: "init_schemas_loop P (VECTORIZERS P) ?s3 = Returned () s4" and s4: "self s4 = self ?s3"
    and c4: "calls s4 = calls ?s3 @ map (\<lambda>v. Call_init_schemas (client (self ?s3)) v False True) (VECTORIZERS P)"
    by blast
  from init_schemas_loop_calls [OF assms(3), of "EMBEDDINGS P" s4] obtain s5 where
    l2: "init_schemas_loop P (EMBEDDINGS P) s4 = Returned () s5" and s5: "self s5 = self s4"
    and c5: "calls s5 = calls s4 @ map (\<lambda>v. Call_init_schemas (client (self s4)) v False True) (EMBEDDINGS P)"
    by blast
  from sc l1 l2 have "VerbaManager_init P rm km em s = Returned () s5"
    by (simp add: VerbaManager_init_def Let_def)
  moreover from s5 s4 cl3 have "client (self s5) = Some c" by simp
  moreover from c5 c4 c3 c1 s4 cl3 have
    "calls s5 = calls s @ Call_Client a #
       map (\<lambda>v. Call_init_schemas (Some c) v False True) (VECTORIZERS P @ EMBEDDINGS P)"
    by simp
  ultimately show ?thesis by blast
qed

theorem schema_setup_for_every_identifier_witness:
  "openai_module (demo_platform False (Some None)) \<noteq> None
   \<and> (\<forall>a w. \<not> is_Raised (weaviate_Client (demo_platform False (Some None)) a w))
   \<and> (\<forall>c v w. \<not> is_Raised (init_schemas (demo_platform False (Some None)) c v False True w))
   \<and> (\<exists>c a s'. VerbaManager_init (demo_platform False (Some None)) demo_readers demo_chunkers
                  demo_embedders fresh = Returned () s'
         \<and> client (self s') = Some c
         \<and> calls s' = [Call_Client a,
                        Call_init_schemas (Some c) ''text2vec-openai'' False True,
                        Call_init_schemas (Some c) ''MiniLM'' False True])"
proof -
  have a: "environ_get (demo_platform False (Some None)) ''VERBA_URL'' \<noteq> []
           \<or> openai_module (demo_platform False (Some None)) \<noteq> None"
    by (simp add: demo_platform_def)
  have b: "\<forall>a w. \<not> is_Raised (weaviate_Client (demo_platform False (Some None)) a w)"
    by (simp add: demo_platform_def)
  have c: "\<forall>c v w. \<not> is_Raised (init_schemas (demo_platform False (Some None)) c v False True w)"
    by (simp add: demo_platform_def)
  have d: "VECTORIZERS (demo_platform False (Some None)) = [''text2vec-openai'']"
    "EMBEDDINGS (demo_platform False (Some None)) = [''MiniLM'']"
    "openai_module (demo_platform False (Some None)) \<noteq> None"
    "calls fresh = []"
    by (simp_all add: demo_platform_def fresh_def)
  from schema_setup_for_every_identifier [OF a b c, of demo_readers demo_chunkers demo_embedders fresh]
  show ?thesis
    using b c by (simp add: d)
qed

text \<open>
  Claim C4 as stated has construction accumulate the failures of schema setup. It does
  not: on a platform where every schema setup reports failure, construction returns the
  same value and leaves the same state, manager included, as on the platform where
  every schema setup succeeds.
\<close>

theorem schema_failures_not_accumulated:
  "init_schemas (demo_platform False (Some None)) (Some embedded_client) ''text2vec-openai''
       False True [] = Returned False []
   \<and> init_schemas (demo_platform False (Some None)) (Some embedded_client) ''MiniLM''
       False True [] = Returned False []
   \<and> VerbaManager_init (demo_platform False (Some None)) demo_readers demo_chunkers
       demo_embedders fresh = Returned () constructed
   \<and> VerbaManager_init (demo_platform True (Some None)) demo_readers demo_chunkers
       demo_embedders fresh = Returned () constructed"
  by (simp add: demo_construction) (simp add: demo_platform_def)

text \<open>
  Claim C6 at the input where it fails: \<^verbatim>\<open>VERBA_URL\<close> is not set, so the embedded
  instance is due, but \<^verbatim>\<open>openai\<close> does not import; \<^verbatim>\<open>setup_client\<close> raises on
  the unbound name after choosing the embedded branch and never calls
  \<^verbatim>\<open>weaviate.Client\<close>. Where \<^verbatim>\<open>openai\<close> imports, the lemmas
  \<open>setup_client_remote\<close> and \<open>setup_client_embedded\<close> above give the request
  the claim describes.
\<close>

theorem setup_client_without_openai:
  "environ (demo_platform True None) ''VERBA_URL'' = None
   \<and> openai_module (demo_platform True None) = None
   \<and> setup_client (demo_platform True None) fresh =
       Raised UnboundLocalError
         (fresh\<lparr>self := blank_manager\<lparr>environment_variables := [''OPENAI_API_KEY'' \<mapsto> False],
                                       weaviate_type := ''Weaviate Embedded''\<rparr>,
                console := [Info ''Setting up client'', Info ''Using Weaviate Embedded''],
                ssl_unverified := True\<rparr>)
   \<and> calls fresh = []"
  by (simp add: setup_client_def check_openai_def Let_def say_def set_weaviate_type_def
      set_environment_variable_def patch_ssl_def environ_get_def demo_platform_def fresh_def
      blank_manager_def)

end
